theory Spec2Isabelle
  imports Main
begin

section \<open>The order service (order-service/main.go)\<close>

subsection \<open>Data model\<close>

text \<open>
  A Go \<open>error\<close> value is represented by its message; a Go result pair
  \<open>(string, error)\<close> is a pair whose second component is \<open>None\<close> for \<open>nil\<close>.
\<close>

type_synonym error = string

type_synonym result = "string \<times> error option"

text \<open>
  \<^verbatim>\<open>type Order struct { ID string; ItemIDs []string; Status string }\<close>
  A Go slice can be \<open>nil\<close>, which is not the empty slice (the JSON encoder writes
  \<open>null\<close> for the first and \<open>[]\<close> for the second), so \<open>ItemIDs\<close> is an option.
\<close>

record Order =
  ID :: string
  ItemIDs :: "string list option"
  Status :: string

text \<open>\<^verbatim>\<open>var newOrder Order\<close>: the zero value of the struct.\<close>

definition zero_Order :: Order where
  "zero_Order = \<lparr>ID = [], ItemIDs = None, Status = []\<rparr>"

text \<open>\<^verbatim>\<open>var orders = make(map[string]Order)\<close>\<close>

type_synonym orders = "string \<rightharpoonup> Order"

subsection \<open>findService\<close>

text \<open>
  \<^verbatim>\<open>
  switch serviceName {
  case "food-catalog-service":
      return "http://food-catalog-service:8080", nil
  default:
      return "", fmt.Errorf("service %s not found", serviceName)
  }
  \<close>
  The function reads and writes nothing but its argument, so it is a function of
  the name alone.
\<close>

definition findService :: "string \<Rightarrow> result" where
  "findService serviceName =
     (if serviceName = ''food-catalog-service''
      then (''http://food-catalog-service:8080'', None)
      else ([], Some (''service '' @ serviceName @ '' not found'')))"

subsection \<open>Request bodies and json.Decoder.Decode\<close>

text \<open>
  The package encoding/json is not part of the repository. The handler uses one
  call of it, \<^verbatim>\<open>json.NewDecoder(r.Body).Decode(&newOrder)\<close> on a struct
  just declared, whose documented behaviour on the three fields of \<open>Order\<close> is
  modelled here.

  A JSON value, with strings unescaped and numbers as their literal:
\<close>

datatype json =
    JNull
  | JBool bool
  | JNumber string
  | JString string
  | JArray "json list"
  | JObject "(string \<times> json) list"

text \<open>
  The decoder first reads one whole JSON value from the body. If it cannot (the
  body is empty or is not JSON), or if the value is a boolean, a number, a string
  or an array, it returns an error and has written nothing: \<open>Undecodable\<close> with
  the text of that error. Otherwise the value is an object (the body \<open>null\<close> is
  treated like the object without members). The decoder matches each key with
  the names \<open>id\<close>, \<open>item_ids\<close> and \<open>status\<close>, exactly or ignoring case, and skips
  the members that match none: \<open>Object\<close> gives, for each of the three fields, the
  value of the member that matches it, if there is one. A body with two members
  for the same field is not described by this type.

  A value of a JSON type that its field does not accept is skipped, the decoder
  goes on and returns, at the end, the first type error it has met. Which one is
  the first depends on the order of the members in the body; its text is the
  component \<open>type_error\<close>, read only when some value has a wrong type.
\<close>

record members =
  id_member :: "json option"
  item_ids_member :: "json option"
  status_member :: "json option"
  type_error :: error

datatype body = Undecodable error | Object members

text \<open>
  A string field accepts a JSON string, and \<open>null\<close>, which leaves it as it is. A
  field of type \<open>[]string\<close> accepts \<open>null\<close>, which sets it to \<open>nil\<close>, and an array
  whose elements a string accepts; the array gives a new slice with one element
  for each element of the array, the empty string where the element is \<open>null\<close>
  or is skipped.
\<close>

definition string_ok :: "json \<Rightarrow> bool" where
  "string_ok j = (case j of JString s \<Rightarrow> True | JNull \<Rightarrow> True | JBool b \<Rightarrow> False
                  | JNumber n \<Rightarrow> False | JArray es \<Rightarrow> False | JObject ms \<Rightarrow> False)"

definition slice_ok :: "json \<Rightarrow> bool" where
  "slice_ok j = (case j of JNull \<Rightarrow> True | JArray es \<Rightarrow> list_all string_ok es
                 | JBool b \<Rightarrow> False | JNumber n \<Rightarrow> False | JString s \<Rightarrow> False
                 | JObject ms \<Rightarrow> False)"

definition well_typed :: "members \<Rightarrow> bool" where
  "well_typed m =
     ((case id_member m of None \<Rightarrow> True | Some j \<Rightarrow> string_ok j) \<and>
      (case item_ids_member m of None \<Rightarrow> True | Some j \<Rightarrow> slice_ok j) \<and>
      (case status_member m of None \<Rightarrow> True | Some j \<Rightarrow> string_ok j))"

definition into_string :: "json \<Rightarrow> string \<Rightarrow> string" where
  "into_string j old = (case j of JString s \<Rightarrow> s | JNull \<Rightarrow> old | JBool b \<Rightarrow> old
                        | JNumber n \<Rightarrow> old | JArray es \<Rightarrow> old | JObject ms \<Rightarrow> old)"

definition into_nil_slice :: "json \<Rightarrow> string list option" where
  "into_nil_slice j =
     (case j of JNull \<Rightarrow> None | JArray es \<Rightarrow> Some (map (\<lambda>e. into_string e []) es)
      | JBool b \<Rightarrow> None | JNumber n \<Rightarrow> None | JString s \<Rightarrow> None | JObject ms \<Rightarrow> None)"

text \<open>
  \<^verbatim>\<open>var newOrder Order; err := Decode(&newOrder)\<close>: the struct after the
  call, which started as the zero value, and the error returned.
\<close>

definition Decode :: "body \<Rightarrow> Order \<times> error option" where
  "Decode b =
     (case b of
        Undecodable err \<Rightarrow> (zero_Order, Some err)
      | Object m \<Rightarrow>
          (\<lparr>ID = (case id_member m of
                    None \<Rightarrow> ID zero_Order | Some j \<Rightarrow> into_string j (ID zero_Order)),
            ItemIDs = (case item_ids_member m of
                         None \<Rightarrow> ItemIDs zero_Order | Some j \<Rightarrow> into_nil_slice j),
            Status = (case status_member m of
                        None \<Rightarrow> Status zero_Order
                      | Some j \<Rightarrow> into_string j (Status zero_Order))\<rparr>,
           if well_typed m then None else Some (type_error m)))"

text \<open>
  The bodies that carry, for each field, nothing, \<open>null\<close> or a value of the
  field's own type are written with a typed payload; \<open>Decodable p\<close> is the object
  with those members. All of them decode without error.
\<close>

datatype 'a field = Absent | Null | Given 'a

record payload =
  id_field :: "string field"
  item_ids_field :: "string list field"
  status_field :: "string field"

definition members_of :: "payload \<Rightarrow> members" where
  "members_of p =
     \<lparr>id_member = (case id_field p of
                     Absent \<Rightarrow> None | Null \<Rightarrow> Some JNull | Given s \<Rightarrow> Some (JString s)),
      item_ids_member = (case item_ids_field p of
                           Absent \<Rightarrow> None | Null \<Rightarrow> Some JNull
                         | Given xs \<Rightarrow> Some (JArray (map JString xs))),
      status_member = (case status_field p of
                         Absent \<Rightarrow> None | Null \<Rightarrow> Some JNull | Given s \<Rightarrow> Some (JString s)),
      type_error = []\<rparr>"

definition Decodable :: "payload \<Rightarrow> body" where
  "Decodable p = Object (members_of p)"

subsection \<open>Responses\<close>

text \<open>
  What a handler writes: the status code and the content. \<open>http.Error(w, msg, code)\<close>
  writes \<open>code\<close> and the message as plain text; the success path writes 201 and the
  JSON encoding of the order; the health probe writes 200 and nothing else.
\<close>

datatype content = NoContent | ErrorText string | OrderJSON Order

record response =
  code :: nat
  content :: content

definition http_Error :: "string \<Rightarrow> nat \<Rightarrow> response" where
  "http_Error msg c = \<lparr>code = c, content = ErrorText msg\<rparr>"

definition StatusOK :: nat where "StatusOK = 200"
definition StatusCreated :: nat where "StatusCreated = 201"
definition StatusBadRequest :: nat where "StatusBadRequest = 400"
definition StatusInternalServerError :: nat where "StatusInternalServerError = 500"

subsection \<open>The handlers\<close>

text \<open>
  \<^verbatim>\<open>
  r.Post("/orders", func(w, r) {
      var newOrder Order
      if err := json.NewDecoder(r.Body).Decode(&newOrder); err != nil {
          http.Error(w, err.Error(), http.StatusBadRequest); return }
      catalogAddr, err := findService("food-catalog-service")
      if err != nil {
          http.Error(w, "Food catalog service not available",
                     http.StatusInternalServerError); return }
      orderID, _ := uuid.GenerateUUID()
      newOrder.ID = orderID
      newOrder.Status = "received"
      orders[orderID] = newOrder
      w.WriteHeader(http.StatusCreated)
      json.NewEncoder(w).Encode(newOrder)
  })
  \<close>
  The handler reads and writes the global map \<open>orders\<close>: the model takes the map
  and returns the new one with the response. \<open>uuid.GenerateUUID\<close> belongs to the
  package hashicorp/go-uuid and draws on the system's random source; the pair it
  returns to this call is an input of the model (\<open>generated\<close>). The handler keeps the
  string of the pair and drops the error. The two log lines are not modelled.

  The locator is a parameter of \<open>post_orders_with\<close>, so that the branch taken when
  the lookup fails can be exercised; the handler of the repository is
  \<open>post_orders\<close>, which passes \<open>findService\<close>.
\<close>

definition post_orders_with ::
  "(string \<Rightarrow> result) \<Rightarrow> orders \<Rightarrow> body \<Rightarrow> result \<Rightarrow> orders \<times> response" where
  "post_orders_with locate st b generated =
     (case Decode b of
        (newOrder, Some err) \<Rightarrow> (st, http_Error err StatusBadRequest)
      | (newOrder, None) \<Rightarrow>
          (case locate ''food-catalog-service'' of
             (catalogAddr, Some err) \<Rightarrow>
               (st, http_Error ''Food catalog service not available''
                               StatusInternalServerError)
           | (catalogAddr, None) \<Rightarrow>
               (case generated of
                  (orderID, _) \<Rightarrow>
                    (let newOrder = newOrder\<lparr>ID := orderID\<rparr>;
                         newOrder = newOrder\<lparr>Status := ''received''\<rparr>
                     in (st(orderID \<mapsto> newOrder),
                         \<lparr>code = StatusCreated, content = OrderJSON newOrder\<rparr>)))))"

definition post_orders :: "orders \<Rightarrow> body \<Rightarrow> result \<Rightarrow> orders \<times> response" where
  "post_orders = post_orders_with findService"

text \<open>\<^verbatim>\<open>r.Get("/health", ...)\<close> writes 200 and touches nothing.\<close>

definition get_health :: "orders \<Rightarrow> orders \<times> response" where
  "get_health st = (st, \<lparr>code = StatusOK, content = NoContent\<rparr>)"

text \<open>
  The router has these two routes. A request is one of them with what the handler
  reads. \<open>run\<close> handles a list of requests one after the other, each handler
  running from start to end.

  The server of \<open>net/http\<close> runs each handler in a goroutine of its own, and
  \<open>orders\<close> is a plain map with no lock. A handler touches the map at one point
  only, the write \<^verbatim>\<open>orders[orderID] = newOrder\<close>, so an execution in which
  no two writes overlap in time is \<open>run\<close> on the requests in the order of their
  writes. Two writes that overlap are a data race, for which Go defines no result
  (the runtime stops the process when it detects one): such executions are not
  described by \<open>run\<close>, and nothing below is about them.
\<close>

datatype request = GetHealth | PostOrders body result

fun serve :: "orders \<Rightarrow> request \<Rightarrow> orders \<times> response" where
  "serve st GetHealth = get_health st"
| "serve st (PostOrders b generated) = post_orders st b generated"

fun run :: "orders \<Rightarrow> request list \<Rightarrow> orders \<times> response list" where
  "run st [] = (st, [])"
| "run st (rq # rqs) =
     (case serve st rq of
        (st', resp) \<Rightarrow> (case run st' rqs of (st'', resps) \<Rightarrow> (st'', resp # resps)))"

subsection \<open>Reading a run\<close>

text \<open>The store when the process starts: \<^verbatim>\<open>make(map[string]Order)\<close>.\<close>

definition initial_orders :: orders where
  "initial_orders = Map.empty"

text \<open>
  The key a request writes in the store, if it writes one: a submission whose body
  decodes stores under the string that \<open>GenerateUUID\<close> returned to it.
\<close>

fun stores_under :: "request \<Rightarrow> string option" where
  "stores_under GetHealth = None"
| "stores_under (PostOrders (Undecodable err) generated) = None"
| "stores_under (PostOrders (Object m) generated) =
     (if well_typed m then Some (fst generated) else None)"

subsection \<open>The status vocabulary of the specification\<close>

text \<open>
  The specification names four states and three transitions:
  received to validated, validated to confirmed, received to rejected. These two
  definitions follow its words; the code is compared with them below.
\<close>

definition status_vocabulary :: "string set" where
  "status_vocabulary = {''received'', ''validated'', ''confirmed'', ''rejected''}"

definition forward :: "(string \<times> string) set" where
  "forward = {(''received'', ''validated''), (''validated'', ''confirmed''),
              (''received'', ''rejected'')}"

section \<open>Properties\<close>

subsection \<open>Service lookup\<close>

text \<open>
  C6. For every service name, \<open>findService\<close> returns the address
  \<open>http://food-catalog-service:8080\<close> with no error exactly when the name is
  \<open>food-catalog-service\<close>, and otherwise returns an error whose message contains
  the requested name (\<open>service <name> not found\<close>). The lookup is a function of the
  name only: it takes no store and returns none, so it changes no state.
\<close>

theorem findService_spec:
  "(snd (findService name) = None \<longleftrightarrow> name = ''food-catalog-service'') \<and>
   (fst (findService name) = ''http://food-catalog-service:8080''
      \<longleftrightarrow> name = ''food-catalog-service'') \<and>
   (name = ''food-catalog-service'' \<or>
      findService name = ([], Some (''service '' @ name @ '' not found'')))"
  by (simp add: findService_def)

theorem findService_spec_witness:
  "(snd (findService ''food-catalog-service'') = None) \<and>
   fst (findService ''food-catalog-service'') = ''http://food-catalog-service:8080'' \<and>
   findService ''kong'' = ([], Some ''service kong not found'')"
  using findService_spec [of "''food-catalog-service''"] findService_spec [of "''kong''"]
  by simp

subsection \<open>What the handler computes\<close>

lemma findService_catalog:
  "findService ''food-catalog-service'' = (''http://food-catalog-service:8080'', None)"
  by (simp add: findService_def)

lemma Decode_Undecodable: "Decode (Undecodable err) = (zero_Order, Some err)"
  by (simp add: Decode_def)

lemma Decode_ill_typed:
  assumes "\<not> well_typed m"
  shows "snd (Decode (Object m)) = Some (type_error m)"
  using assms by (simp add: Decode_def)

lemma Decode_well_typed:
  assumes "well_typed m"
  shows "Decode (Object m) =
           (\<lparr>ID = (case id_member m of None \<Rightarrow> [] | Some j \<Rightarrow> into_string j []),
             ItemIDs = (case item_ids_member m of None \<Rightarrow> None | Some j \<Rightarrow> into_nil_slice j),
             Status = (case status_member m of None \<Rightarrow> [] | Some j \<Rightarrow> into_string j [])\<rparr>,
            None)"
  using assms by (simp add: Decode_def zero_Order_def split: option.splits)

lemma well_typed_members_of: "well_typed (members_of p)"
  by (simp add: well_typed_def members_of_def string_ok_def slice_ok_def list_all_iff
        split: field.splits)

lemma items_members_of:
  "(case item_ids_member (members_of p) of None \<Rightarrow> None | Some j \<Rightarrow> into_nil_slice j) =
     (case item_ids_field p of Given xs \<Rightarrow> Some xs | Null \<Rightarrow> None | Absent \<Rightarrow> None)"
  by (simp add: members_of_def into_nil_slice_def into_string_def comp_def
        split: field.splits)

lemma Decode_Decodable: "snd (Decode (Decodable p)) = None"
  by (simp add: Decodable_def Decode_well_typed well_typed_members_of)

lemma stores_under_Decodable [simp]:
  "stores_under (PostOrders (Decodable p) generated) = Some (fst generated)"
  by (simp add: Decodable_def well_typed_members_of)

lemma post_orders_with_Undecodable:
  "post_orders_with locate st (Undecodable err) generated =
     (st, http_Error err StatusBadRequest)"
  by (simp add: post_orders_with_def Decode_Undecodable)

lemma post_orders_with_ill_typed:
  assumes "\<not> well_typed m"
  shows "post_orders_with locate st (Object m) generated =
           (st, http_Error (type_error m) StatusBadRequest)"
  using assms by (simp add: post_orders_with_def Decode_def)

lemma post_orders_with_Object_unresolved:
  assumes "well_typed m" and "locate ''food-catalog-service'' = (addr, Some err)"
  shows "post_orders_with locate st (Object m) generated =
           (st, http_Error ''Food catalog service not available''
                           StatusInternalServerError)"
  using assms by (simp add: post_orders_with_def Decode_well_typed)

lemma post_orders_with_Object_resolved:
  assumes "well_typed m" and "locate ''food-catalog-service'' = (addr, None)"
  shows "post_orders_with locate st (Object m) (uid, err) =
           (st(uid \<mapsto> \<lparr>ID = uid,
                        ItemIDs = (case item_ids_member m of
                                     None \<Rightarrow> None | Some j \<Rightarrow> into_nil_slice j),
                        Status = ''received''\<rparr>),
            \<lparr>code = StatusCreated,
             content = OrderJSON \<lparr>ID = uid,
                        ItemIDs = (case item_ids_member m of
                                     None \<Rightarrow> None | Some j \<Rightarrow> into_nil_slice j),
                        Status = ''received''\<rparr>\<rparr>)"
  using assms by (simp add: post_orders_with_def Decode_well_typed Let_def)

lemma post_orders_with_unresolved:
  assumes "locate ''food-catalog-service'' = (addr, Some err)"
  shows "post_orders_with locate st (Decodable p) generated =
           (st, http_Error ''Food catalog service not available''
                           StatusInternalServerError)"
  unfolding Decodable_def
  by (rule post_orders_with_Object_unresolved [of _ locate, OF well_typed_members_of assms])

lemma post_orders_with_resolved:
  assumes "locate ''food-catalog-service'' = (addr, None)"
  shows "post_orders_with locate st (Decodable p) (uid, err) =
           (st(uid \<mapsto> \<lparr>ID = uid,
                        ItemIDs = (case item_ids_field p of
                                     Given xs \<Rightarrow> Some xs | Null \<Rightarrow> None | Absent \<Rightarrow> None),
                        Status = ''received''\<rparr>),
            \<lparr>code = StatusCreated,
             content = OrderJSON \<lparr>ID = uid,
                        ItemIDs = (case item_ids_field p of
                                     Given xs \<Rightarrow> Some xs | Null \<Rightarrow> None | Absent \<Rightarrow> None),
                        Status = ''received''\<rparr>\<rparr>)"
  unfolding Decodable_def
  by (simp only: post_orders_with_Object_resolved
                   [of _ locate, OF well_typed_members_of assms] items_members_of)

lemma post_orders_Undecodable:
  "post_orders st (Undecodable err) generated = (st, http_Error err StatusBadRequest)"
  by (simp add: post_orders_def post_orders_with_Undecodable)

lemma post_orders_ill_typed:
  assumes "\<not> well_typed m"
  shows "post_orders st (Object m) generated =
           (st, http_Error (type_error m) StatusBadRequest)"
  unfolding post_orders_def by (rule post_orders_with_ill_typed [OF assms])

lemma post_orders_Object:
  assumes "well_typed m"
  shows "post_orders st (Object m) (uid, err) =
           (st(uid \<mapsto> \<lparr>ID = uid,
                        ItemIDs = (case item_ids_member m of
                                     None \<Rightarrow> None | Some j \<Rightarrow> into_nil_slice j),
                        Status = ''received''\<rparr>),
            \<lparr>code = StatusCreated,
             content = OrderJSON \<lparr>ID = uid,
                        ItemIDs = (case item_ids_member m of
                                     None \<Rightarrow> None | Some j \<Rightarrow> into_nil_slice j),
                        Status = ''received''\<rparr>\<rparr>)"
  unfolding post_orders_def
  by (rule post_orders_with_Object_resolved [of _ findService, OF assms findService_catalog])

lemma post_orders_Decodable:
  "post_orders st (Decodable p) (uid, err) =
     (st(uid \<mapsto> \<lparr>ID = uid,
                  ItemIDs = (case item_ids_field p of
                               Given xs \<Rightarrow> Some xs | Null \<Rightarrow> None | Absent \<Rightarrow> None),
                  Status = ''received''\<rparr>),
      \<lparr>code = StatusCreated,
       content = OrderJSON \<lparr>ID = uid,
                  ItemIDs = (case item_ids_field p of
                               Given xs \<Rightarrow> Some xs | Null \<Rightarrow> None | Absent \<Rightarrow> None),
                  Status = ''received''\<rparr>\<rparr>)"
  unfolding post_orders_def
  by (rule post_orders_with_resolved [of findService]) (rule findService_catalog)

text \<open>
  With the locator of the repository the lookup of the catalog always succeeds, so
  the handler never answers 500.
\<close>

lemma post_orders_code:
  "code (snd (post_orders st b generated)) =
     (case b of Undecodable err \<Rightarrow> StatusBadRequest
      | Object m \<Rightarrow> if well_typed m then StatusCreated else StatusBadRequest)"
  by (cases b; cases generated)
     (simp_all add: post_orders_Undecodable post_orders_Object post_orders_ill_typed
        http_Error_def)

subsection \<open>Validation of the payload\<close>

text \<open>
  C1, as stated: a payload whose item-list field is missing or null gets 400 and no
  order is created. The handler has no check of the item list. At the bodies
  \<open>{}\<close> and \<open>{"item_ids": null}\<close>, with the store empty, it answers 201 and the
  store holds a new order.
\<close>

theorem missing_item_list_accepted:
  "code (snd (post_orders initial_orders
           (Decodable \<lparr>id_field = Absent, item_ids_field = Absent, status_field = Absent\<rparr>)
           (''6ba7b810-9dad-11d1-80b4-00c04fd430c8'', None))) = 201 \<and>
   fst (post_orders initial_orders
           (Decodable \<lparr>id_field = Absent, item_ids_field = Absent, status_field = Absent\<rparr>)
           (''6ba7b810-9dad-11d1-80b4-00c04fd430c8'', None))
     ''6ba7b810-9dad-11d1-80b4-00c04fd430c8'' =
     Some \<lparr>ID = ''6ba7b810-9dad-11d1-80b4-00c04fd430c8'', ItemIDs = None,
           Status = ''received''\<rparr> \<and>
   code (snd (post_orders initial_orders
           (Decodable \<lparr>id_field = Absent, item_ids_field = Null, status_field = Absent\<rparr>)
           (''6ba7b810-9dad-11d1-80b4-00c04fd430c8'', None))) \<noteq> StatusBadRequest \<and>
   fst (post_orders initial_orders
           (Decodable \<lparr>id_field = Absent, item_ids_field = Null, status_field = Absent\<rparr>)
           (''6ba7b810-9dad-11d1-80b4-00c04fd430c8'', None)) \<noteq> initial_orders"
  by (simp add: post_orders_Decodable StatusCreated_def StatusBadRequest_def
        initial_orders_def)

text \<open>
  C1, amended: a body that the decoder rejects (it is not JSON, or a value has the
  wrong JSON type for its field) gets 400 with the decoder's message and the
  store is unchanged; a payload that decodes with the item-list field
  missing or null is accepted: the handler answers 201 and stores, under the
  generated identifier, an order whose item list is nil.
\<close>

theorem decode_error_is_the_only_validation:
  "post_orders st (Undecodable msg) generated =
     (st, \<lparr>code = 400, content = ErrorText msg\<rparr>) \<and>
   (item_ids_field p = Absent \<or> item_ids_field p = Null \<longrightarrow>
    post_orders st (Decodable p) (uid, err) =
      (st(uid \<mapsto> \<lparr>ID = uid, ItemIDs = None, Status = ''received''\<rparr>),
       \<lparr>code = 201,
        content = OrderJSON \<lparr>ID = uid, ItemIDs = None, Status = ''received''\<rparr>\<rparr>)) \<and>
   (\<not> well_typed m \<longrightarrow>
    post_orders st (Object m) generated =
      (st, \<lparr>code = 400, content = ErrorText (type_error m)\<rparr>)) \<and>
   (well_typed m \<and> (item_ids_member m = None \<or> item_ids_member m = Some JNull) \<longrightarrow>
    post_orders st (Object m) (uid, err) =
      (st(uid \<mapsto> \<lparr>ID = uid, ItemIDs = None, Status = ''received''\<rparr>),
       \<lparr>code = 201,
        content = OrderJSON \<lparr>ID = uid, ItemIDs = None, Status = ''received''\<rparr>\<rparr>))"
  by (auto simp add: post_orders_Undecodable post_orders_Decodable post_orders_Object
        post_orders_ill_typed into_nil_slice_def http_Error_def
        StatusBadRequest_def StatusCreated_def)

theorem decode_error_is_the_only_validation_witness:
  "post_orders initial_orders (Undecodable ''unexpected EOF'') (''u-1'', None) =
     (initial_orders, \<lparr>code = 400, content = ErrorText ''unexpected EOF''\<rparr>) \<and>
   post_orders initial_orders
      (Decodable \<lparr>id_field = Absent, item_ids_field = Null, status_field = Absent\<rparr>)
      (''u-1'', None) =
     (initial_orders(''u-1'' \<mapsto> \<lparr>ID = ''u-1'', ItemIDs = None, Status = ''received''\<rparr>),
      \<lparr>code = 201,
       content = OrderJSON \<lparr>ID = ''u-1'', ItemIDs = None, Status = ''received''\<rparr>\<rparr>) \<and>
   post_orders initial_orders
      (Object \<lparr>id_member = None, item_ids_member = Some (JString ''item-1''),
               status_member = None, type_error = ''type error''\<rparr>)
      (''u-1'', None) =
     (initial_orders, \<lparr>code = 400, content = ErrorText ''type error''\<rparr>) \<and>
   post_orders initial_orders
      (Object \<lparr>id_member = None, item_ids_member = None,
               status_member = Some (JString ''open''), type_error = []\<rparr>)
      (''u-1'', None) =
     (initial_orders(''u-1'' \<mapsto> \<lparr>ID = ''u-1'', ItemIDs = None, Status = ''received''\<rparr>),
      \<lparr>code = 201,
       content = OrderJSON \<lparr>ID = ''u-1'', ItemIDs = None, Status = ''received''\<rparr>\<rparr>)"
  using decode_error_is_the_only_validation
          [of initial_orders "''unexpected EOF''" "(''u-1'', None)"
              "\<lparr>id_field = Absent, item_ids_field = Null, status_field = Absent\<rparr>"
              "''u-1''" None
              "\<lparr>id_member = None, item_ids_member = Some (JString ''item-1''),
                status_member = None, type_error = ''type error''\<rparr>"]
        decode_error_is_the_only_validation
          [of initial_orders "''unexpected EOF''" "(''u-1'', None)"
              "\<lparr>id_field = Absent, item_ids_field = Null, status_field = Absent\<rparr>"
              "''u-1''" None
              "\<lparr>id_member = None, item_ids_member = None,
                status_member = Some (JString ''open''), type_error = []\<rparr>"]
  by (simp add: well_typed_def slice_ok_def string_ok_def)

subsection \<open>The dependency gate\<close>

text \<open>
  C2. When the locator returns an error for the catalog service name, the handler
  answers 500 (\<open>Food catalog service not available\<close>) to a submission that reached
  the lookup, and the store is left as it was: no order is created. The store is
  unchanged for every body, since a body that does not decode stops before the
  lookup, also with the store unchanged.
\<close>

theorem dependency_gate:
  assumes "snd (locate ''food-catalog-service'') = Some err"
  shows "post_orders_with locate st (Decodable p) generated =
           (st, \<lparr>code = 500, content = ErrorText ''Food catalog service not available''\<rparr>) \<and>
         fst (post_orders_with locate st b generated) = st \<and>
         (well_typed m \<longrightarrow>
            post_orders_with locate st (Object m) generated =
              (st, \<lparr>code = 500,
                    content = ErrorText ''Food catalog service not available''\<rparr>))"
proof -
  obtain addr where loc: "locate ''food-catalog-service'' = (addr, Some err)"
    using assms by (cases "locate ''food-catalog-service''") simp
  have dec: "post_orders_with locate st (Decodable q) generated =
           (st, \<lparr>code = 500, content = ErrorText ''Food catalog service not available''\<rparr>)"
    for q
    by (simp add: post_orders_with_unresolved [of locate, OF loc] http_Error_def
          StatusInternalServerError_def)
  have "fst (post_orders_with locate st b generated) = st"
  proof (cases b)
    case (Undecodable e)
    then show ?thesis by (simp add: post_orders_with_Undecodable)
  next
    case (Object m)
    then show ?thesis
      by (cases "well_typed m")
         (simp_all add: post_orders_with_ill_typed
            post_orders_with_Object_unresolved [of _ locate, OF _ loc])
  qed
  moreover have "post_orders_with locate st (Object m) generated =
              (st, \<lparr>code = 500,
                    content = ErrorText ''Food catalog service not available''\<rparr>)"
    if "well_typed m"
    by (simp add: post_orders_with_Object_unresolved [of _ locate, OF that loc]
          http_Error_def StatusInternalServerError_def)
  ultimately show ?thesis using dec by simp
qed

theorem dependency_gate_witness:
  "post_orders_with (\<lambda>name. ([], Some (''service '' @ name @ '' not found'')))
      (initial_orders(''u-0'' \<mapsto> \<lparr>ID = ''u-0'', ItemIDs = Some [], Status = ''received''\<rparr>))
      (Decodable \<lparr>id_field = Absent, item_ids_field = Given [''item-1''],
                  status_field = Absent\<rparr>)
      (''u-1'', None) =
     (initial_orders(''u-0'' \<mapsto> \<lparr>ID = ''u-0'', ItemIDs = Some [], Status = ''received''\<rparr>),
      \<lparr>code = 500, content = ErrorText ''Food catalog service not available''\<rparr>) \<and>
   post_orders_with (\<lambda>name. ([], Some (''service '' @ name @ '' not found'')))
      (initial_orders(''u-0'' \<mapsto> \<lparr>ID = ''u-0'', ItemIDs = Some [], Status = ''received''\<rparr>))
      (Object \<lparr>id_member = None,
               item_ids_member = Some (JArray [JString ''item-1'', JNull]),
               status_member = None, type_error = []\<rparr>)
      (''u-1'', None) =
     (initial_orders(''u-0'' \<mapsto> \<lparr>ID = ''u-0'', ItemIDs = Some [], Status = ''received''\<rparr>),
      \<lparr>code = 500, content = ErrorText ''Food catalog service not available''\<rparr>)"
  using dependency_gate
          [of "\<lambda>name. ([], Some (''service '' @ name @ '' not found''))"
              "''service food-catalog-service not found''"
              "initial_orders(''u-0'' \<mapsto> \<lparr>ID = ''u-0'', ItemIDs = Some [], Status = ''received''\<rparr>)"
              "\<lparr>id_field = Absent, item_ids_field = Given [''item-1''],
                status_field = Absent\<rparr>"
              "(''u-1'', None)"
              "Undecodable []"
              "\<lparr>id_member = None,
                item_ids_member = Some (JArray [JString ''item-1'', JNull]),
                status_member = None, type_error = []\<rparr>"]
  by (simp add: well_typed_def slice_ok_def string_ok_def)

subsection \<open>The successful submission\<close>




text \<open>
  C8, as stated: whatever \<open>id\<close> or \<open>status\<close> the request body supplies is ignored.
  At the body \<open>{"id": 5, "item_ids": ["a"]}\<close> the decoder reports a type error for
  \<open>id\<close>: the handler answers 400 and stores nothing, while the same body without
  \<open>id\<close> gets 201 and an order is stored.
\<close>

theorem wrong_typed_id_rejected:
  "post_orders initial_orders
     (Object \<lparr>id_member = Some (JNumber ''5''),
              item_ids_member = Some (JArray [JString ''a'']),
              status_member = None,
              type_error = ''json: cannot unmarshal number into Go struct field Order.id of type string''\<rparr>)
     (''6ba7b810-9dad-11d1-80b4-00c04fd430c8'', None) =
   (initial_orders,
    \<lparr>code = 400,
     content = ErrorText ''json: cannot unmarshal number into Go struct field Order.id of type string''\<rparr>) \<and>
   post_orders initial_orders
     (Object \<lparr>id_member = None,
              item_ids_member = Some (JArray [JString ''a'']),
              status_member = None,
              type_error = ''json: cannot unmarshal number into Go struct field Order.id of type string''\<rparr>)
     (''6ba7b810-9dad-11d1-80b4-00c04fd430c8'', None) =
   (initial_orders(''6ba7b810-9dad-11d1-80b4-00c04fd430c8'' \<mapsto>
      \<lparr>ID = ''6ba7b810-9dad-11d1-80b4-00c04fd430c8'', ItemIDs = Some [''a''],
       Status = ''received''\<rparr>),
    \<lparr>code = 201,
     content = OrderJSON
      \<lparr>ID = ''6ba7b810-9dad-11d1-80b4-00c04fd430c8'', ItemIDs = Some [''a''],
       Status = ''received''\<rparr>\<rparr>)"
  by (simp add: post_orders_Object post_orders_ill_typed well_typed_def slice_ok_def
        string_ok_def into_nil_slice_def into_string_def http_Error_def
        StatusCreated_def StatusBadRequest_def)

text \<open>
  C8, amended: an \<open>id\<close> or \<open>status\<close> of the request body that is a JSON string or
  \<open>null\<close> is ignored: the handler does what it does when the field is absent.
  Every submission that decodes stores and returns an order that carries the
  generated identifier and the status \<open>received\<close>, never a value of the payload.
  An \<open>id\<close> or \<open>status\<close> of another JSON type is not ignored: the decoder reports a
  type error, the handler answers 400 with its text and the store is unchanged.
\<close>

theorem caller_id_and_status:
  "(string_ok i \<longrightarrow>
      post_orders st (Object (m\<lparr>id_member := Some i\<rparr>)) generated =
      post_orders st (Object (m\<lparr>id_member := None\<rparr>)) generated) \<and>
   (string_ok s \<longrightarrow>
      post_orders st (Object (m\<lparr>status_member := Some s\<rparr>)) generated =
      post_orders st (Object (m\<lparr>status_member := None\<rparr>)) generated) \<and>
   (well_typed m \<longrightarrow>
      (\<exists>ord. post_orders st (Object m) generated =
               (st(fst generated \<mapsto> ord),
                \<lparr>code = 201, content = OrderJSON ord\<rparr>) \<and>
             ID ord = fst generated \<and> Status ord = ''received'')) \<and>
   (\<not> string_ok i \<longrightarrow>
      post_orders st (Object (m\<lparr>id_member := Some i\<rparr>)) generated =
        (st, \<lparr>code = 400, content = ErrorText (type_error m)\<rparr>)) \<and>
   (\<not> string_ok s \<longrightarrow>
      post_orders st (Object (m\<lparr>status_member := Some s\<rparr>)) generated =
        (st, \<lparr>code = 400, content = ErrorText (type_error m)\<rparr>)) \<and>
   post_orders st
     (Decodable \<lparr>id_field = fi, item_ids_field = xs, status_field = fs\<rparr>) generated =
   post_orders st
     (Decodable \<lparr>id_field = Absent, item_ids_field = xs, status_field = Absent\<rparr>) generated"
proof -
  obtain uid err where gen: "generated = (uid, err)"
    by (cases generated)
  have id_ok: "post_orders st (Object (m\<lparr>id_member := Some i\<rparr>)) generated =
               post_orders st (Object (m\<lparr>id_member := None\<rparr>)) generated"
    if "string_ok i"
  proof (cases "well_typed (m\<lparr>id_member := None\<rparr>)")
    case True
    with that have "well_typed (m\<lparr>id_member := Some i\<rparr>)"
      by (simp add: well_typed_def)
    with True show ?thesis
      unfolding gen by (simp add: post_orders_Object)
  next
    case False
    then have "\<not> well_typed (m\<lparr>id_member := Some i\<rparr>)"
      by (auto simp add: well_typed_def)
    with False show ?thesis
      by (simp add: post_orders_ill_typed)
  qed
  have status_ok: "post_orders st (Object (m\<lparr>status_member := Some s\<rparr>)) generated =
               post_orders st (Object (m\<lparr>status_member := None\<rparr>)) generated"
    if "string_ok s"
  proof (cases "well_typed (m\<lparr>status_member := None\<rparr>)")
    case True
    with that have "well_typed (m\<lparr>status_member := Some s\<rparr>)"
      by (simp add: well_typed_def)
    with True show ?thesis
      unfolding gen by (simp add: post_orders_Object)
  next
    case False
    then have "\<not> well_typed (m\<lparr>status_member := Some s\<rparr>)"
      by (auto simp add: well_typed_def)
    with False show ?thesis
      by (simp add: post_orders_ill_typed)
  qed
  have stored: "\<exists>ord. post_orders st (Object m) generated =
               (st(fst generated \<mapsto> ord), \<lparr>code = 201, content = OrderJSON ord\<rparr>) \<and>
             ID ord = fst generated \<and> Status ord = ''received''"
    if "well_typed m"
    unfolding gen using that by (simp add: post_orders_Object StatusCreated_def)
  have id_bad: "post_orders st (Object (m\<lparr>id_member := Some i\<rparr>)) generated =
        (st, \<lparr>code = 400, content = ErrorText (type_error m)\<rparr>)"
    if "\<not> string_ok i"
  proof -
    from that have "\<not> well_typed (m\<lparr>id_member := Some i\<rparr>)"
      by (simp add: well_typed_def)
    then show ?thesis
      by (simp add: post_orders_ill_typed http_Error_def StatusBadRequest_def)
  qed
  have status_bad: "post_orders st (Object (m\<lparr>status_member := Some s\<rparr>)) generated =
        (st, \<lparr>code = 400, content = ErrorText (type_error m)\<rparr>)"
    if "\<not> string_ok s"
  proof -
    from that have "\<not> well_typed (m\<lparr>status_member := Some s\<rparr>)"
      by (simp add: well_typed_def)
    then show ?thesis
      by (simp add: post_orders_ill_typed http_Error_def StatusBadRequest_def)
  qed
  have typed: "post_orders st
     (Decodable \<lparr>id_field = fi, item_ids_field = xs, status_field = fs\<rparr>) generated =
   post_orders st
     (Decodable \<lparr>id_field = Absent, item_ids_field = xs, status_field = Absent\<rparr>) generated"
    unfolding gen by (simp add: post_orders_Decodable)
  from id_ok status_ok stored id_bad status_bad typed show ?thesis
    by blast
qed

theorem caller_id_and_status_witness:
  "post_orders initial_orders
     (Object \<lparr>id_member = Some (JString ''my-own-id''),
              item_ids_member = Some (JArray [JString ''item-1'']),
              status_member = Some (JString ''confirmed''), type_error = ''unused''\<rparr>)
     (''u-1'', None) =
   (initial_orders(''u-1'' \<mapsto>
       \<lparr>ID = ''u-1'', ItemIDs = Some [''item-1''], Status = ''received''\<rparr>),
    \<lparr>code = 201,
     content = OrderJSON
       \<lparr>ID = ''u-1'', ItemIDs = Some [''item-1''], Status = ''received''\<rparr>\<rparr>) \<and>
   post_orders initial_orders
     (Object \<lparr>id_member = None,
              item_ids_member = Some (JArray [JString ''item-1'']),
              status_member = Some (JBool True), type_error = ''type error''\<rparr>)
     (''u-1'', None) =
   (initial_orders, \<lparr>code = 400, content = ErrorText ''type error''\<rparr>)"
  using caller_id_and_status
          [of "JString ''my-own-id''" initial_orders
              "\<lparr>id_member = None,
                item_ids_member = Some (JArray [JString ''item-1'']),
                status_member = Some (JString ''confirmed''), type_error = ''unused''\<rparr>"
              "(''u-1'', None)" "JString ''confirmed''"]
        caller_id_and_status
          [of "JString ''my-own-id''" initial_orders
              "\<lparr>id_member = None,
                item_ids_member = Some (JArray [JString ''item-1'']),
                status_member = None, type_error = ''unused''\<rparr>"
              "(''u-1'', None)" "JString ''confirmed''"]
        caller_id_and_status
          [of "JNull" initial_orders
              "\<lparr>id_member = None,
                item_ids_member = Some (JArray [JString ''item-1'']),
                status_member = None, type_error = ''type error''\<rparr>"
              "(''u-1'', None)" "JBool True"]
  by (simp add: well_typed_def slice_ok_def string_ok_def post_orders_Object
        into_nil_slice_def into_string_def StatusCreated_def)

text \<open>
  C10. When \<open>GenerateUUID\<close> returns an error, the handler does exactly what it does
  without the error: the order is stored and returned under the string that came
  with the error, and the response is 201, not an error response.
\<close>

theorem generation_error_discarded:
  "post_orders st b (uid, Some err) = post_orders st b (uid, None) \<and>
   post_orders st (Decodable p) (uid, Some err) =
     (st(uid \<mapsto> \<lparr>ID = uid,
                  ItemIDs = (case item_ids_field p of
                               Given xs \<Rightarrow> Some xs | Null \<Rightarrow> None | Absent \<Rightarrow> None),
                  Status = ''received''\<rparr>),
      \<lparr>code = 201,
       content = OrderJSON \<lparr>ID = uid,
                  ItemIDs = (case item_ids_field p of
                               Given xs \<Rightarrow> Some xs | Null \<Rightarrow> None | Absent \<Rightarrow> None),
                  Status = ''received''\<rparr>\<rparr>) \<and>
   (well_typed m \<longrightarrow>
    post_orders st (Object m) (uid, Some err) =
     (st(uid \<mapsto> \<lparr>ID = uid,
                  ItemIDs = (case item_ids_member m of
                               None \<Rightarrow> None | Some j \<Rightarrow> into_nil_slice j),
                  Status = ''received''\<rparr>),
      \<lparr>code = 201,
       content = OrderJSON \<lparr>ID = uid,
                  ItemIDs = (case item_ids_member m of
                               None \<Rightarrow> None | Some j \<Rightarrow> into_nil_slice j),
                  Status = ''received''\<rparr>\<rparr>))"
proof -
  have "post_orders st b (uid, Some err) = post_orders st b (uid, None)"
  proof (cases b)
    case (Undecodable e)
    then show ?thesis by (simp add: post_orders_Undecodable)
  next
    case (Object m)
    then show ?thesis
      by (cases "well_typed m") (simp_all add: post_orders_ill_typed post_orders_Object)
  qed
  then show ?thesis
    by (simp add: post_orders_Decodable post_orders_Object StatusCreated_def)
qed

theorem generation_error_discarded_witness:
  "post_orders initial_orders
     (Decodable \<lparr>id_field = Absent, item_ids_field = Given [''item-1''],
                 status_field = Absent\<rparr>)
     ([], Some ''failed to read random bytes'') =
   (initial_orders([] \<mapsto> \<lparr>ID = [], ItemIDs = Some [''item-1''], Status = ''received''\<rparr>),
    \<lparr>code = 201,
     content = OrderJSON \<lparr>ID = [], ItemIDs = Some [''item-1''], Status = ''received''\<rparr>\<rparr>) \<and>
   post_orders initial_orders
     (Object \<lparr>id_member = Some JNull,
              item_ids_member = Some (JArray [JString ''item-1'', JNull]),
              status_member = None, type_error = []\<rparr>)
     ([], Some ''failed to read random bytes'') =
   (initial_orders([] \<mapsto> \<lparr>ID = [], ItemIDs = Some [''item-1'', []],
                           Status = ''received''\<rparr>),
    \<lparr>code = 201,
     content = OrderJSON \<lparr>ID = [], ItemIDs = Some [''item-1'', []],
                          Status = ''received''\<rparr>\<rparr>)"
  using generation_error_discarded
          [of initial_orders
              "Decodable \<lparr>id_field = Absent, item_ids_field = Given [''item-1''],
                status_field = Absent\<rparr>"
              "[]" "''failed to read random bytes''"
              "\<lparr>id_field = Absent, item_ids_field = Given [''item-1''],
                status_field = Absent\<rparr>"
              "\<lparr>id_member = Some JNull,
                item_ids_member = Some (JArray [JString ''item-1'', JNull]),
                status_member = None, type_error = []\<rparr>",
           THEN conjunct2]
  by (simp add: well_typed_def slice_ok_def string_ok_def into_nil_slice_def
        into_string_def)

subsection \<open>What a submission changes in the store\<close>

text \<open>
  C9, as stated: a successful submission adds exactly one entry. When the string
  that \<open>GenerateUUID\<close> returns is already a key, here the empty string left by an
  earlier submission whose generation failed, the submission succeeds with 201 and
  adds no entry: the store has the same single key, and its order is replaced.
\<close>

theorem repeated_id_adds_no_entry:
  "code (snd (post_orders
     (initial_orders([] \<mapsto> \<lparr>ID = [], ItemIDs = Some [''item-1''], Status = ''received''\<rparr>))
     (Decodable \<lparr>id_field = Absent, item_ids_field = Given [''item-2''],
                 status_field = Absent\<rparr>)
     ([], Some ''failed to read random bytes''))) = 201 \<and>
   dom (fst (post_orders
     (initial_orders([] \<mapsto> \<lparr>ID = [], ItemIDs = Some [''item-1''], Status = ''received''\<rparr>))
     (Decodable \<lparr>id_field = Absent, item_ids_field = Given [''item-2''],
                 status_field = Absent\<rparr>)
     ([], Some ''failed to read random bytes''))) =
   dom (initial_orders([] \<mapsto> \<lparr>ID = [], ItemIDs = Some [''item-1''],
                              Status = ''received''\<rparr>)) \<and>
   fst (post_orders
     (initial_orders([] \<mapsto> \<lparr>ID = [], ItemIDs = Some [''item-1''], Status = ''received''\<rparr>))
     (Decodable \<lparr>id_field = Absent, item_ids_field = Given [''item-2''],
                 status_field = Absent\<rparr>)
     ([], Some ''failed to read random bytes'')) [] =
   Some \<lparr>ID = [], ItemIDs = Some [''item-2''], Status = ''received''\<rparr>"
  by (simp add: post_orders_Decodable StatusCreated_def initial_orders_def)

text \<open>
  C9, amended: a submission changes at most one key of the store, the generated
  identifier: every other key keeps its value. A submission whose body decodes and
  whose lookup of the catalog succeeds answers 201 and writes the returned order
  under the generated identifier: one entry more when that identifier was not a
  key, the entry replaced when it was. A submission that fails, by a decode error
  (400) or by a failed lookup of the catalog (500), leaves the store unchanged.
\<close>

theorem submission_writes_one_key:
  "(\<forall>k. k \<noteq> fst generated \<longrightarrow>
        fst (post_orders_with locate st b generated) k = st k) \<and>
   (snd (Decode b) = None \<and> snd (locate ''food-catalog-service'') = None \<longrightarrow>
      code (snd (post_orders_with locate st b generated)) = 201 \<and>
      (\<exists>ord. content (snd (post_orders_with locate st b generated)) = OrderJSON ord \<and>
             fst (post_orders_with locate st b generated) = st(fst generated \<mapsto> ord) \<and>
             fst (post_orders_with locate st b generated) (fst generated) = Some ord) \<and>
      dom (fst (post_orders_with locate st b generated)) = insert (fst generated) (dom st) \<and>
      (fst generated \<notin> dom st \<longrightarrow>
         dom (fst (post_orders_with locate st b generated)) - dom st = {fst generated}) \<and>
      (fst generated \<in> dom st \<longrightarrow>
         dom (fst (post_orders_with locate st b generated)) = dom st)) \<and>
   (snd (Decode b) \<noteq> None \<longrightarrow>
      fst (post_orders_with locate st b generated) = st \<and>
      code (snd (post_orders_with locate st b generated)) = 400) \<and>
   (snd (Decode b) = None \<and> snd (locate ''food-catalog-service'') \<noteq> None \<longrightarrow>
      fst (post_orders_with locate st b generated) = st \<and>
      code (snd (post_orders_with locate st b generated)) = 500)"
proof -
  obtain uid e where gen: "generated = (uid, e)"
    by (cases generated)
  obtain addr r where loc: "locate ''food-catalog-service'' = (addr, r)"
    by (cases "locate ''food-catalog-service''")
  show ?thesis
  proof (cases b)
    case (Undecodable err)
    then show ?thesis
      by (simp add: post_orders_with_Undecodable Decode_Undecodable http_Error_def
            StatusBadRequest_def)
  next
    case (Object m)
    show ?thesis
    proof (cases "well_typed m")
      case False
      then have "snd (Decode b) \<noteq> None"
        unfolding Object by (simp add: Decode_ill_typed)
      with False show ?thesis
        unfolding Object
        by (simp add: post_orders_with_ill_typed http_Error_def StatusBadRequest_def)
    next
      case True
      then have dec: "snd (Decode b) = None"
        unfolding Object by (simp add: Decode_well_typed)
      show ?thesis
      proof (cases r)
        case None
        with loc have res: "locate ''food-catalog-service'' = (addr, None)" by simp
        show ?thesis
          using dec unfolding Object gen
          by (auto simp add: post_orders_with_Object_resolved [of _ locate, OF True res]
                res StatusCreated_def)
      next
        case (Some e')
        with loc have unres: "locate ''food-catalog-service'' = (addr, Some e')" by simp
        show ?thesis
          using dec unfolding Object gen
          by (simp add: post_orders_with_Object_unresolved [of _ locate, OF True unres]
                unres http_Error_def StatusInternalServerError_def)
      qed
    qed
  qed
qed

theorem submission_writes_one_key_witness:
  "post_orders_with findService
          (initial_orders(''u-0'' \<mapsto> \<lparr>ID = ''u-0'', ItemIDs = None, Status = ''received''\<rparr>))
          (Decodable \<lparr>id_field = Absent, item_ids_field = Given [''item-1''],
                      status_field = Absent\<rparr>)
          (''u-1'', None) =
     (initial_orders(''u-0'' \<mapsto> \<lparr>ID = ''u-0'', ItemIDs = None, Status = ''received''\<rparr>,
                     ''u-1'' \<mapsto> \<lparr>ID = ''u-1'', ItemIDs = Some [''item-1''],
                                Status = ''received''\<rparr>),
      \<lparr>code = 201,
       content = OrderJSON \<lparr>ID = ''u-1'', ItemIDs = Some [''item-1''],
                            Status = ''received''\<rparr>\<rparr>) \<and>
   dom (fst (post_orders_with findService
          (initial_orders(''u-0'' \<mapsto> \<lparr>ID = ''u-0'', ItemIDs = None, Status = ''received''\<rparr>))
          (Decodable \<lparr>id_field = Absent, item_ids_field = Given [''item-1''],
                      status_field = Absent\<rparr>)
          (''u-1'', None))) = {''u-0'', ''u-1''} \<and>
   fst (post_orders_with findService
          (initial_orders(''u-0'' \<mapsto> \<lparr>ID = ''u-0'', ItemIDs = None, Status = ''received''\<rparr>))
          (Undecodable ''unexpected EOF'') (''u-1'', None)) =
     initial_orders(''u-0'' \<mapsto> \<lparr>ID = ''u-0'', ItemIDs = None, Status = ''received''\<rparr>) \<and>
   code (snd (post_orders_with findService
          (initial_orders(''u-0'' \<mapsto> \<lparr>ID = ''u-0'', ItemIDs = None, Status = ''received''\<rparr>))
          (Undecodable ''unexpected EOF'') (''u-1'', None))) = 400 \<and>
   fst (post_orders_with (\<lambda>name. ([], Some (''service '' @ name @ '' not found'')))
          (initial_orders(''u-0'' \<mapsto> \<lparr>ID = ''u-0'', ItemIDs = None, Status = ''received''\<rparr>))
          (Decodable \<lparr>id_field = Absent, item_ids_field = Given [''item-1''],
                      status_field = Absent\<rparr>)
          (''u-1'', None)) =
     initial_orders(''u-0'' \<mapsto> \<lparr>ID = ''u-0'', ItemIDs = None, Status = ''received''\<rparr>) \<and>
   code (snd (post_orders_with (\<lambda>name. ([], Some (''service '' @ name @ '' not found'')))
          (initial_orders(''u-0'' \<mapsto> \<lparr>ID = ''u-0'', ItemIDs = None, Status = ''received''\<rparr>))
          (Decodable \<lparr>id_field = Absent, item_ids_field = Given [''item-1''],
                      status_field = Absent\<rparr>)
          (''u-1'', None))) = 500"
  using submission_writes_one_key
          [of "(''u-1'', None)" findService
              "initial_orders(''u-0'' \<mapsto> \<lparr>ID = ''u-0'', ItemIDs = None, Status = ''received''\<rparr>)"
              "Decodable \<lparr>id_field = Absent, item_ids_field = Given [''item-1''],
                          status_field = Absent\<rparr>"]
        submission_writes_one_key
          [of "(''u-1'', None)" findService
              "initial_orders(''u-0'' \<mapsto> \<lparr>ID = ''u-0'', ItemIDs = None, Status = ''received''\<rparr>)"
              "Undecodable ''unexpected EOF''"]
        submission_writes_one_key
          [of "(''u-1'', None)" "\<lambda>name. ([], Some (''service '' @ name @ '' not found''))"
              "initial_orders(''u-0'' \<mapsto> \<lparr>ID = ''u-0'', ItemIDs = None, Status = ''received''\<rparr>)"
              "Decodable \<lparr>id_field = Absent, item_ids_field = Given [''item-1''],
                          status_field = Absent\<rparr>"]
  by (simp add: Decode_Decodable Decode_Undecodable findService_catalog
        post_orders_with_resolved [of findService, OF findService_catalog]
        post_orders_with_Undecodable
        post_orders_with_unresolved
          [of "\<lambda>name. ([], Some (''service '' @ name @ '' not found''))" "[]"
              "''service food-catalog-service not found''"]
        http_Error_def StatusCreated_def StatusBadRequest_def
        StatusInternalServerError_def initial_orders_def insert_commute)

subsection \<open>Runs of the server\<close>

lemma run_Cons_fst: "fst (run st (rq # rqs)) = fst (run (fst (serve st rq)) rqs)"
  by (simp split: prod.splits)

lemma run_Cons_snd:
  "snd (run st (rq # rqs)) = snd (serve st rq) # snd (run (fst (serve st rq)) rqs)"
  by (simp split: prod.splits)

lemma run_append_fst: "fst (run st (rqs @ rqs')) = fst (run (fst (run st rqs)) rqs')"
proof (induction rqs arbitrary: st)
  case Nil
  show ?case by simp
next
  case (Cons rq rqs)
  have "fst (run st ((rq # rqs) @ rqs')) = fst (run (fst (serve st rq)) (rqs @ rqs'))"
    by (simp only: append_Cons run_Cons_fst)
  also have "\<dots> = fst (run (fst (run (fst (serve st rq)) rqs)) rqs')"
    by (rule Cons.IH)
  finally show ?case by (simp only: run_Cons_fst)
qed

lemma serve_cases:
  "(stores_under rq = None \<and> fst (serve st rq) = st \<and>
      (\<forall>ord. content (snd (serve st rq)) \<noteq> OrderJSON ord) \<and>
      code (snd (serve st rq)) \<noteq> StatusCreated) \<or>
   (\<exists>uid ord. stores_under rq = Some uid \<and> ID ord = uid \<and> Status ord = ''received'' \<and>
      serve st rq = (st(uid \<mapsto> ord), \<lparr>code = StatusCreated, content = OrderJSON ord\<rparr>))"
proof (cases rq)
  case GetHealth
  then show ?thesis
    by (simp add: get_health_def StatusOK_def StatusCreated_def)
next
  case (PostOrders b generated)
  show ?thesis
  proof (cases b)
    case (Undecodable err)
    with PostOrders show ?thesis
      by (simp add: post_orders_Undecodable http_Error_def StatusBadRequest_def
            StatusCreated_def)
  next
    case (Object m)
    show ?thesis
    proof (cases "well_typed m")
      case True
      with PostOrders Object show ?thesis
        by (cases generated) (simp add: post_orders_Object)
    next
      case False
      with PostOrders Object show ?thesis
        by (simp add: post_orders_ill_typed http_Error_def StatusBadRequest_def
              StatusCreated_def)
    qed
  qed
qed

lemma serve_other_key:
  assumes "stores_under rq \<noteq> Some k"
  shows "fst (serve st rq) k = st k"
  using serve_cases [of rq st] assms by auto

lemma serve_dom_mono:
  assumes "k \<in> dom st"
  shows "k \<in> dom (fst (serve st rq))"
  using serve_cases [of rq st] assms by auto

lemma run_other_key:
  assumes "\<forall>rq \<in> set rqs. stores_under rq \<noteq> Some k"
  shows "fst (run st rqs) k = st k"
  using assms
proof (induction rqs arbitrary: st)
  case Nil
  show ?case by simp
next
  case (Cons rq rqs)
  from Cons.prems have here: "stores_under rq \<noteq> Some k"
    and later: "\<forall>rq' \<in> set rqs. stores_under rq' \<noteq> Some k"
    by simp_all
  have "fst (run st (rq # rqs)) k = fst (run (fst (serve st rq)) rqs) k"
    by (simp only: run_Cons_fst)
  also have "\<dots> = fst (serve st rq) k"
    by (rule Cons.IH [OF later])
  also have "\<dots> = st k"
    by (rule serve_other_key [OF here])
  finally show ?case .
qed

lemma run_dom_mono:
  assumes "k \<in> dom st"
  shows "k \<in> dom (fst (run st rqs))"
  using assms
proof (induction rqs arbitrary: st)
  case Nil
  then show ?case by simp
next
  case (Cons rq rqs)
  from Cons.prems have "k \<in> dom (fst (serve st rq))"
    by (rule serve_dom_mono)
  then have "k \<in> dom (fst (run (fst (serve st rq)) rqs))"
    by (rule Cons.IH)
  then show ?case by (simp only: run_Cons_fst)
qed

lemma serve_received:
  assumes "\<forall>k ord. st k = Some ord \<longrightarrow> Status ord = ''received''"
  shows "\<forall>k ord. fst (serve st rq) k = Some ord \<longrightarrow> Status ord = ''received''"
  using serve_cases [of rq st] assms by (auto split: if_splits)

lemma run_received:
  assumes "\<forall>k ord. st k = Some ord \<longrightarrow> Status ord = ''received''"
  shows "\<forall>k ord. fst (run st rqs) k = Some ord \<longrightarrow> Status ord = ''received''"
  using assms
proof (induction rqs arbitrary: st)
  case Nil
  then show ?case by simp
next
  case (Cons rq rqs)
  have "\<forall>k ord. fst (serve st rq) k = Some ord \<longrightarrow> Status ord = ''received''"
    by (rule serve_received [OF Cons.prems])
  then have "\<forall>k ord. fst (run (fst (serve st rq)) rqs) k = Some ord
               \<longrightarrow> Status ord = ''received''"
    by (rule Cons.IH)
  then show ?case by (simp only: run_Cons_fst)
qed
subsection \<open>Retrieval of a stored order\<close>

text \<open>
  C3, as stated: the order returned by a successful submission is found under its id
  from then on, whatever happens later. Retrieval is the lookup in \<open>orders\<close>. Two
  submissions whose identifier generation fails both get the empty id; the first
  one returns an order with \<open>item-1\<close>, and after the second one the lookup of that
  order's id gives the second order.
\<close>

theorem later_submission_overwrites:
  "serve initial_orders
     (PostOrders (Decodable \<lparr>id_field = Absent, item_ids_field = Given [''item-1''],
                              status_field = Absent\<rparr>)
                 ([], Some ''failed to read random bytes'')) =
     (initial_orders([] \<mapsto> \<lparr>ID = [], ItemIDs = Some [''item-1''], Status = ''received''\<rparr>),
      \<lparr>code = 201,
       content = OrderJSON \<lparr>ID = [], ItemIDs = Some [''item-1''],
                            Status = ''received''\<rparr>\<rparr>) \<and>
   fst (run (initial_orders([] \<mapsto> \<lparr>ID = [], ItemIDs = Some [''item-1''],
                                  Status = ''received''\<rparr>))
          [PostOrders (Decodable \<lparr>id_field = Absent, item_ids_field = Given [''item-2''],
                                   status_field = Absent\<rparr>)
                      ([], Some ''failed to read random bytes'')])
       (ID \<lparr>ID = [], ItemIDs = Some [''item-1''], Status = ''received''\<rparr>) \<noteq>
     Some \<lparr>ID = [], ItemIDs = Some [''item-1''], Status = ''received''\<rparr>"
  by (simp add: post_orders_Decodable StatusCreated_def)

text \<open>
  C3, amended: the order returned by a successful submission is stored under its id
  as returned; no later request removes the entry; and the lookup of the id keeps
  returning that order for as long as no later submission is given the same
  identifier (such a submission overwrites the entry).
\<close>

theorem stored_order_round_trip:
  assumes "serve st rq = (st1, r)" and "content r = OrderJSON ord"
  shows "st1 (ID ord) = Some ord \<and>
         ID ord \<in> dom (fst (run st1 rqs)) \<and>
         ((\<forall>rq' \<in> set rqs. stores_under rq' \<noteq> Some (ID ord)) \<longrightarrow>
            fst (run st1 rqs) (ID ord) = Some ord)"
proof -
  from serve_cases [of rq st] assms
  have stored: "st1 (ID ord) = Some ord" by auto
  then have "ID ord \<in> dom st1" by blast
  then have kept: "ID ord \<in> dom (fst (run st1 rqs))" by (rule run_dom_mono)
  have "fst (run st1 rqs) (ID ord) = Some ord"
    if "\<forall>rq' \<in> set rqs. stores_under rq' \<noteq> Some (ID ord)"
    using run_other_key [OF that, of st1] stored by simp
  with stored kept show ?thesis by blast
qed

theorem stored_order_round_trip_witness:
  "fst (run (initial_orders(''u-1'' \<mapsto>
               \<lparr>ID = ''u-1'', ItemIDs = Some [''item-1''], Status = ''received''\<rparr>))
          [GetHealth,
           PostOrders (Decodable \<lparr>id_field = Given ''u-1'', item_ids_field = Null,
                                   status_field = Absent\<rparr>) (''u-2'', None),
           PostOrders (Undecodable ''unexpected EOF'') (''u-1'', None)]) ''u-1'' =
     Some \<lparr>ID = ''u-1'', ItemIDs = Some [''item-1''], Status = ''received''\<rparr>"
  using stored_order_round_trip
          [of initial_orders
              "PostOrders (Decodable \<lparr>id_field = Absent, item_ids_field = Given [''item-1''],
                                      status_field = Absent\<rparr>) (''u-1'', None)"
              "initial_orders(''u-1'' \<mapsto>
                 \<lparr>ID = ''u-1'', ItemIDs = Some [''item-1''], Status = ''received''\<rparr>)"
              "\<lparr>code = 201,
                content = OrderJSON \<lparr>ID = ''u-1'', ItemIDs = Some [''item-1''],
                                     Status = ''received''\<rparr>\<rparr>"
              "\<lparr>ID = ''u-1'', ItemIDs = Some [''item-1''], Status = ''received''\<rparr>"
              "[GetHealth,
                PostOrders (Decodable \<lparr>id_field = Given ''u-1'', item_ids_field = Null,
                                        status_field = Absent\<rparr>) (''u-2'', None),
                PostOrders (Undecodable ''unexpected EOF'') (''u-1'', None)]"]
  by (simp add: post_orders_Decodable StatusCreated_def)

subsection \<open>The status of stored orders\<close>

text \<open>
  C7. Starting from the empty store, every order found in the store after any list
  of requests has a status of the vocabulary (it is \<open>received\<close>); and if the same
  key holds an order again after any further requests, the status of that order is
  the same, so it is reached from the earlier one along the transition graph, in
  zero steps. No request stores an order with a status outside the vocabulary.
\<close>

theorem stored_status_in_vocabulary:
  assumes "fst (run initial_orders rqs) k = Some ord"
  shows "Status ord \<in> status_vocabulary \<and>
         (fst (run (fst (run initial_orders rqs)) rqs') k = Some ord' \<longrightarrow>
            Status ord' = Status ord \<and> (Status ord, Status ord') \<in> forward\<^sup>*) \<and>
         (\<forall>st rq. content (snd (serve st rq)) = OrderJSON ord' \<longrightarrow>
            Status ord' \<in> status_vocabulary)"
proof -
  have init: "\<forall>k ord. initial_orders k = Some ord \<longrightarrow> Status ord = ''received''"
    by (simp add: initial_orders_def)
  have reach: "Status x = ''received''" if "fst (run initial_orders qs) j = Some x"
    for qs j x
    using run_received [OF init, of qs] that by blast
  have now: "Status ord = ''received''"
    using reach assms by blast
  have later: "Status ord' = ''received''"
    if "fst (run (fst (run initial_orders rqs)) rqs') k = Some ord'"
    using reach [of "rqs @ rqs'" k ord'] that by (simp add: run_append_fst)
  have written: "Status ord' \<in> status_vocabulary"
    if "content (snd (serve st rq)) = OrderJSON ord'" for st rq
    using serve_cases [of rq st] that by (auto simp add: status_vocabulary_def)
  from now later written show ?thesis
    by (auto simp add: status_vocabulary_def)
qed

theorem stored_status_in_vocabulary_witness:
  "fst (run initial_orders
          [PostOrders (Decodable \<lparr>id_field = Absent, item_ids_field = Given [''item-1''],
                                   status_field = Given ''confirmed''\<rparr>) (''u-1'', None)])
       ''u-1'' =
     Some \<lparr>ID = ''u-1'', ItemIDs = Some [''item-1''], Status = ''received''\<rparr> \<and>
   ''received'' \<in> status_vocabulary \<and>
   fst (run (fst (run initial_orders
          [PostOrders (Decodable \<lparr>id_field = Absent, item_ids_field = Given [''item-1''],
                                   status_field = Given ''confirmed''\<rparr>) (''u-1'', None)]))
          [PostOrders (Decodable \<lparr>id_field = Absent, item_ids_field = Null,
                                   status_field = Given ''rejected''\<rparr>) (''u-1'', None)])
       ''u-1'' =
     Some \<lparr>ID = ''u-1'', ItemIDs = None, Status = ''received''\<rparr> \<and>
   (''received'', ''received'') \<in> forward\<^sup>*"
  using stored_status_in_vocabulary
          [of "[PostOrders (Decodable \<lparr>id_field = Absent, item_ids_field = Given [''item-1''],
                              status_field = Given ''confirmed''\<rparr>) (''u-1'', None)]"
              "''u-1''"
              "\<lparr>ID = ''u-1'', ItemIDs = Some [''item-1''], Status = ''received''\<rparr>"
              "[PostOrders (Decodable \<lparr>id_field = Absent, item_ids_field = Null,
                              status_field = Given ''rejected''\<rparr>) (''u-1'', None)]"
              "\<lparr>ID = ''u-1'', ItemIDs = None, Status = ''received''\<rparr>"]
  by (simp add: post_orders_Decodable initial_orders_def)

end
